theory Spec2Isabelle
  imports Complex_Main
begin

section \<open>Python outcomes: exceptions and emitted events\<close>

text \<open>
  The models of \<^verbatim>\<open>diVAE.py\<close> are embedded over the reals: a tensor element is a
  \<^typ>\<open>real\<close>, so rounding, overflow and infinities of floating point are not part of
  the model. Every way a call can end without a value is a constructor of \<open>error\<close>.
  \<open>NaN\<close> is not a Python exception: it marks the one place (the mean of an empty
  tensor) where torch returns a not-a-number, which no real represents.
\<close>

datatype error =
    RuntimeError
  | AttributeError
  | TypeError
  | IndexError
  | ValueError
  | NotImplementedError
  | SystemExit
  | NaN

text \<open>
  A tensor of at most two dimensions. \<open>Num\<close> is a Python number or a zero-dimensional
  tensor, \<open>Vec\<close> a one-dimensional tensor, \<open>Mat\<close> a two-dimensional tensor given by
  its rows (all of one width). A \<open>Mat\<close> without rows does not record its width.
\<close>

datatype tval = Num real | Vec "real list" | Mat "real list list"

text \<open>
  What a call leaves behind besides its result: the records handed to
  \<^verbatim>\<open>logger.debug\<close> and the values written by \<^verbatim>\<open>print\<close>, in order.
\<close>

datatype event = Debug string | Print tval

type_synonym 'a py = "event list \<times> (error + 'a)"

definition return_py :: "'a \<Rightarrow> 'a py" where
  "return_py v = ([], Inr v)"

definition raise :: "error \<Rightarrow> 'a py" where
  "raise e = ([], Inl e)"

definition logger_debug :: "string \<Rightarrow> unit py" where
  "logger_debug msg = ([Debug msg], Inr ())"

definition print_py :: "tval \<Rightarrow> unit py" where
  "print_py v = ([Print v], Inr ())"

definition lift :: "error + 'a \<Rightarrow> 'a py" where
  "lift r = ([], r)"

definition py_bind :: "'a py \<Rightarrow> ('a \<Rightarrow> 'b py) \<Rightarrow> 'b py" where
  "py_bind m f =
     (case m of
        (tr, Inl e) \<Rightarrow> (tr, Inl e)
      | (tr, Inr v) \<Rightarrow> (case f v of (tr', r) \<Rightarrow> (tr @ tr', r)))"

definition err_bind :: "error + 'a \<Rightarrow> ('a \<Rightarrow> error + 'b) \<Rightarrow> error + 'b" where
  "err_bind m f = (case m of Inl e \<Rightarrow> Inl e | Inr v \<Rightarrow> f v)"

primrec sequence :: "(error + 'a) list \<Rightarrow> error + 'a list" where
  "sequence [] = Inr []"
| "sequence (r # rs) =
     (case r of
        Inl e \<Rightarrow> Inl e
      | Inr v \<Rightarrow> (case sequence rs of Inl e \<Rightarrow> Inl e | Inr vs \<Rightarrow> Inr (v # vs)))"

section \<open>The tensor operations the models call\<close>

definition flatten :: "tval \<Rightarrow> real list" where
  "flatten t = (case t of Num a \<Rightarrow> [a] | Vec v \<Rightarrow> v | Mat m \<Rightarrow> concat m)"

definition tmap :: "(real \<Rightarrow> real) \<Rightarrow> tval \<Rightarrow> tval" where
  "tmap f t =
     (case t of Num a \<Rightarrow> Num (f a) | Vec v \<Rightarrow> Vec (map f v) | Mat m \<Rightarrow> Mat (map (map f) m))"

definition same_shape :: "tval \<Rightarrow> tval \<Rightarrow> bool" where
  "same_shape s t =
     (case (s, t) of
        (Num _, Num _) \<Rightarrow> True
      | (Vec u, Vec v) \<Rightarrow> length u = length v
      | (Mat a, Mat b) \<Rightarrow> map length a = map length b
      | _ \<Rightarrow> False)"

text \<open>
  Broadcasting of an element-wise binary operation: along each dimension the two sizes
  are equal or one of them is 1; a one-dimensional operand meets a two-dimensional one
  as a single row. Anything else is torch's RuntimeError.
\<close>

definition bvec :: "(real \<Rightarrow> real \<Rightarrow> real) \<Rightarrow> real list \<Rightarrow> real list \<Rightarrow> error + real list" where
  "bvec f u v =
     (if length u = length v then Inr (map2 f u v)
      else if length u = 1 then Inr (map (f (hd u)) v)
      else if length v = 1 then Inr (map (\<lambda>a. f a (hd v)) u)
      else Inl RuntimeError)"

definition bmat ::
  "(real \<Rightarrow> real \<Rightarrow> real) \<Rightarrow> real list list \<Rightarrow> real list list \<Rightarrow> error + real list list" where
  "bmat f a b =
     (if length a = length b then sequence (map2 (bvec f) a b)
      else if length a = 1 then sequence (map (bvec f (hd a)) b)
      else if length b = 1 then sequence (map (\<lambda>r. bvec f r (hd b)) a)
      else Inl RuntimeError)"

fun broadcast :: "(real \<Rightarrow> real \<Rightarrow> real) \<Rightarrow> tval \<Rightarrow> tval \<Rightarrow> error + tval" where
  "broadcast f (Num a) (Num b) = Inr (Num (f a b))"
| "broadcast f (Num a) (Vec v) = Inr (Vec (map (f a) v))"
| "broadcast f (Num a) (Mat m) = Inr (Mat (map (map (f a)) m))"
| "broadcast f (Vec u) (Num b) = Inr (Vec (map (\<lambda>x. f x b) u))"
| "broadcast f (Mat m) (Num b) = Inr (Mat (map (map (\<lambda>x. f x b)) m))"
| "broadcast f (Vec u) (Vec v) = map_sum id Vec (bvec f u v)"
| "broadcast f (Vec u) (Mat m) = map_sum id Mat (bmat f [u] m)"
| "broadcast f (Mat m) (Vec v) = map_sum id Mat (bmat f m [v])"
| "broadcast f (Mat a) (Mat b) = map_sum id Mat (bmat f a b)"

definition tadd :: "tval \<Rightarrow> tval \<Rightarrow> error + tval" where
  "tadd = broadcast (+)"

definition tsub :: "tval \<Rightarrow> tval \<Rightarrow> error + tval" where
  "tsub = broadcast (-)"

definition tmul :: "tval \<Rightarrow> tval \<Rightarrow> error + tval" where
  "tmul = broadcast (*)"

definition torch_max :: "tval \<Rightarrow> tval \<Rightarrow> error + tval" where
  "torch_max = broadcast max"

text \<open>
  \<^verbatim>\<open>a += b\<close>: on a Python number it rebinds the name to \<^verbatim>\<open>a + b\<close>; on a tensor it
  adds in place, which torch refuses when the broadcast result is not of \<open>a\<close>'s shape.
\<close>

definition iadd :: "tval \<Rightarrow> tval \<Rightarrow> error + tval" where
  "iadd a b =
     (case a of
        Num _ \<Rightarrow> tadd a b
      | _ \<Rightarrow> err_bind (tadd a b) (\<lambda>r. if same_shape r a then Inr r else Inl RuntimeError))"

definition torch_zeros_size :: "tval \<Rightarrow> tval" where
  "torch_zeros_size t = tmap (\<lambda>_. 0) t"

definition torch_abs :: "tval \<Rightarrow> tval" where
  "torch_abs = tmap abs"

definition torch_exp :: "tval \<Rightarrow> tval" where
  "torch_exp = tmap exp"

definition pow2 :: "tval \<Rightarrow> tval" where
  "pow2 = tmap (\<lambda>a. a ^ 2)"

text \<open>
  \<^verbatim>\<open>torch.nn.Softplus()\<close> with its defaults \<open>beta = 1\<close>, \<open>threshold = 20\<close>: above the
  threshold the module is the identity.
\<close>

definition softplus :: "real \<Rightarrow> real" where
  "softplus y = (if y > 20 then y else ln (1 + exp y))"

definition Softplus :: "tval \<Rightarrow> tval" where
  "Softplus = tmap softplus"

text \<open>\<^verbatim>\<open>torch.sum(t)\<close>, \<^verbatim>\<open>torch.sum(t, dim=1)\<close> and \<^verbatim>\<open>torch.mean(t)\<close>.\<close>

definition torch_sum :: "tval \<Rightarrow> tval" where
  "torch_sum t = Num (sum_list (flatten t))"

definition torch_sum_dim1 :: "tval \<Rightarrow> error + tval" where
  "torch_sum_dim1 t =
     (case t of
        Num _ \<Rightarrow> Inl TypeError
      | Vec _ \<Rightarrow> Inl IndexError
      | Mat m \<Rightarrow> Inr (Vec (map sum_list m)))"

definition torch_mean :: "tval \<Rightarrow> error + tval" where
  "torch_mean t =
     (if flatten t = [] then Inl NaN
      else Inr (Num (sum_list (flatten t) / real (length (flatten t)))))"

text \<open>
  \<^verbatim>\<open>t.view(-1, 784)\<close> on a contiguous tensor: only the number of elements matters. It
  must be a multiple of 784, and not zero (the row count would be ambiguous); the
  result has that many elements in rows of 784, in the same order.
\<close>

definition view_784 :: "tval \<Rightarrow> error + tval" where
  "view_784 t =
     (let xs = flatten t in
      if length xs mod 784 \<noteq> 0 \<or> length xs = 0 then Inl RuntimeError
      else Inr (Mat (map (\<lambda>i. take 784 (drop (i * 784) xs)) [0..<length xs div 784])))"

text \<open>\<^verbatim>\<open>t[0]\<close>: the first row of a matrix, the first element of a vector.\<close>

definition index0 :: "tval \<Rightarrow> error + tval" where
  "index0 t =
     (case t of
        Num _ \<Rightarrow> Inl IndexError
      | Vec v \<Rightarrow> (case v of [] \<Rightarrow> Inl IndexError | a # _ \<Rightarrow> Inr (Num a))
      | Mat m \<Rightarrow> (case m of [] \<Rightarrow> Inl IndexError | r # _ \<Rightarrow> Inr (Vec r)))"

text \<open>
  \<^verbatim>\<open>torch.cat(ts, 1)\<close>: the tensors are matrices with one row count, joined row by row;
  an empty list and any other operand are refused.
\<close>

fun cat_rows :: "real list list \<Rightarrow> tval list \<Rightarrow> error + real list list" where
  "cat_rows acc [] = Inr acc"
| "cat_rows acc (Mat m # ts) =
     (if length m = length acc then cat_rows (map2 (@) acc m) ts else Inl RuntimeError)"
| "cat_rows acc (_ # ts) = Inl IndexError"

definition torch_cat1 :: "tval list \<Rightarrow> error + tval" where
  "torch_cat1 ts =
     (case ts of
        [] \<Rightarrow> Inl RuntimeError
      | Mat m # rest \<Rightarrow> map_sum id Mat (cat_rows m rest)
      | _ # rest \<Rightarrow> Inl IndexError)"

text \<open>
  \<^verbatim>\<open>torch.nn.functional.binary_cross_entropy(input, target, reduction='sum')\<close>: the two
  tensors have one shape, every input element lies in \<open>[0, 1]\<close>, and each logarithm is
  clamped below at \<open>-100\<close> (the logarithm of 0 is minus infinity there, so it is the clamp).
\<close>

definition clamp_log :: "real \<Rightarrow> real" where
  "clamp_log p = (if p \<le> 0 then - 100 else max (ln p) (- 100))"

definition bce_elem :: "real \<Rightarrow> real \<Rightarrow> real" where
  "bce_elem p t = - (t * clamp_log p + (1 - t) * clamp_log (1 - p))"

definition binary_cross_entropy_sum :: "tval \<Rightarrow> tval \<Rightarrow> error + tval" where
  "binary_cross_entropy_sum inp target =
     (if \<not> same_shape inp target then Inl ValueError
      else if \<not> list_all (\<lambda>p. 0 \<le> p \<and> p \<le> 1) (flatten inp) then Inl RuntimeError
      else Inr (Num (sum_list (map2 bce_elem (flatten inp) (flatten target)))))"

text \<open>
  \<^verbatim>\<open>torch.randn_like(t)\<close>: a tensor of \<open>t\<close>'s shape filled, in row-major order, with the
  successive draws of the standard normal generator, given here as the sequence
  \<open>draw\<close>.
\<close>

fun fill_rows :: "(nat \<Rightarrow> real) \<Rightarrow> nat \<Rightarrow> real list list \<Rightarrow> real list list" where
  "fill_rows draw k [] = []"
| "fill_rows draw k (r # rs) = map draw [k..<k + length r] # fill_rows draw (k + length r) rs"

definition randn_like :: "(nat \<Rightarrow> real) \<Rightarrow> tval \<Rightarrow> tval" where
  "randn_like draw t =
     (case t of
        Num _ \<Rightarrow> Num (draw 0)
      | Vec v \<Rightarrow> Vec (map draw [0..<length v])
      | Mat m \<Rightarrow> Mat (fill_rows draw 0 m))"

section \<open>The collaborators of \<^verbatim>\<open>diVAE.py\<close>\<close>

text \<open>
  The encoder and decoder networks, the posterior distributions and the RBM prior are
  built elsewhere (\<^verbatim>\<open>networks\<close>, \<^verbatim>\<open>rbm\<close>). An object of theirs is the record of the
  methods \<^verbatim>\<open>diVAE.py\<close> calls on it; each method is any function that returns a tensor
  or raises.
\<close>

record factorial =
  entropy :: "tval \<Rightarrow> error + tval"

record encoder_obj =
  encode :: "tval \<Rightarrow> error + tval"
  hierarchical_posterior :: "tval \<Rightarrow> error + (factorial list \<times> tval list)"

record decoder_obj =
  decode :: "tval \<Rightarrow> error + tval"
  decode_posterior_sample :: "tval \<Rightarrow> error + tval"

record RBM =
  cross_entropy :: "tval \<Rightarrow> error + tval"
  get_samples :: "int \<Rightarrow> error + tval"

text \<open>A \<^verbatim>\<open>torch.nn.Module\<close> as far as \<^verbatim>\<open>.training\<close> reads it.\<close>

datatype nn_Module = Module (module_training: bool)

section \<open>The model classes\<close>

text \<open>
  \<open>AEBase\<close> holds the attributes that \<^verbatim>\<open>nn.Module.__init__\<close>, \<^verbatim>\<open>AEBase.__init__\<close> and
  every subclass constructor bind and that the methods below read. \<open>AE\<close> adds none.
\<close>

record AEBase =
  type_name :: string
  latent_dimensions :: "int option"
  training :: bool
  encoder :: encoder_obj
  decoder :: decoder_obj

record VAE = AEBase +
  reparamLayers_mu :: "tval \<Rightarrow> error + tval"
  reparamLayers_var :: "tval \<Rightarrow> error + tval"

text \<open>
  \<open>attr_model\<close> is the instance attribute \<^verbatim>\<open>_model\<close>: \<open>None\<close> when no such attribute is
  bound, in which case reading \<^verbatim>\<open>self._model\<close> raises AttributeError.
\<close>

record DiVAE = AEBase +
  n_hidden_units :: int
  weight_decay_factor :: real
  num_latent_hierarchy_levels :: int
  num_latent_units :: int
  num_det_units :: int
  num_det_layers :: int
  prior :: RBM
  attr_model :: "nn_Module option"

text \<open>
  The constructors. The networks and the prior they create come from the other modules
  and are passed in. None of them binds \<^verbatim>\<open>_model\<close>.
\<close>

definition AE_init :: "int option \<Rightarrow> encoder_obj \<Rightarrow> decoder_obj \<Rightarrow> AEBase" where
  "AE_init latent enc dec =
     \<lparr>type_name = ''AE'', latent_dimensions = latent, training = True,
      encoder = enc, decoder = dec\<rparr>"

definition VAE_init ::
  "int option \<Rightarrow> encoder_obj \<Rightarrow> decoder_obj \<Rightarrow> (tval \<Rightarrow> error + tval) \<Rightarrow> (tval \<Rightarrow> error + tval) \<Rightarrow> VAE" where
  "VAE_init latent enc dec lin_mu lin_var =
     \<lparr>type_name = ''VAE'', latent_dimensions = latent, training = True,
      encoder = enc, decoder = dec,
      reparamLayers_mu = lin_mu, reparamLayers_var = lin_var\<rparr>"

definition DiVAE_init :: "int option \<Rightarrow> int \<Rightarrow> encoder_obj \<Rightarrow> decoder_obj \<Rightarrow> RBM \<Rightarrow> DiVAE" where
  "DiVAE_init latent hidden enc dec rbm =
     \<lparr>type_name = ''DiVAE'', latent_dimensions = latent, training = True,
      encoder = enc, decoder = dec,
      n_hidden_units = hidden, weight_decay_factor = 1 / 10000,
      num_latent_hierarchy_levels = 4, num_latent_units = 100,
      num_det_units = 200, num_det_layers = 2,
      prior = rbm, attr_model = None\<rparr>"

subsection \<open>AE\<close>

definition AE_forward :: "'a AEBase_scheme \<Rightarrow> tval \<Rightarrow> (tval \<times> tval) py" where
  "AE_forward self x =
     py_bind (lift (view_784 x)) (\<lambda>v.
     py_bind (lift (encode (encoder self) v)) (\<lambda>zeta.
     py_bind (lift (decode (decoder self) zeta)) (\<lambda>x_recon.
     return_py (x_recon, zeta))))"

definition AE_loss :: "'a AEBase_scheme \<Rightarrow> tval \<Rightarrow> tval \<Rightarrow> tval py" where
  "AE_loss self x_true x_recon =
     py_bind (lift (view_784 x_true)) (\<lambda>v.
     lift (binary_cross_entropy_sum x_recon v))"

subsection \<open>VAE\<close>

definition reparameterize :: "(nat \<Rightarrow> real) \<Rightarrow> tval \<Rightarrow> tval \<Rightarrow> error + tval" where
  "reparameterize draw mu logvar =
     (let eps = randn_like draw mu in
      err_bind (tmul (Num (1 / 2)) logvar) (\<lambda>h.
      err_bind (tmul eps (torch_exp h)) (\<lambda>s.
      tadd mu s)))"

definition VAE_loss :: "VAE \<Rightarrow> tval \<Rightarrow> tval \<Rightarrow> tval \<Rightarrow> tval \<Rightarrow> tval py" where
  "VAE_loss self x x_recon mu logvar =
     py_bind (logger_debug ''loss'') (\<lambda>_.
     py_bind (lift (view_784 x)) (\<lambda>v.
     py_bind (lift (binary_cross_entropy_sum x_recon v)) (\<lambda>auto_loss.
     py_bind (lift (tadd (Num 1) logvar)) (\<lambda>t1.
     py_bind (lift (tsub t1 (pow2 mu))) (\<lambda>t2.
     py_bind (lift (tsub t2 (torch_exp logvar))) (\<lambda>t3.
     py_bind (lift (tmul (Num (1 / 2)) (torch_sum t3))) (\<lambda>kl_loss.
     lift (tsub auto_loss kl_loss))))))))"

definition VAE_forward :: "(nat \<Rightarrow> real) \<Rightarrow> VAE \<Rightarrow> tval \<Rightarrow> (tval \<times> tval \<times> tval \<times> tval) py" where
  "VAE_forward draw self x =
     py_bind (lift (view_784 x)) (\<lambda>v.
     py_bind (lift (encode (encoder self) v)) (\<lambda>x_prime.
     py_bind (lift (reparamLayers_mu self x_prime)) (\<lambda>mu.
     py_bind (lift (reparamLayers_var self x_prime)) (\<lambda>logvar.
     py_bind (lift (reparameterize draw mu logvar)) (\<lambda>zeta.
     py_bind (lift (decode (decoder self) zeta)) (\<lambda>x_recon.
     return_py (x_recon, mu, logvar, zeta)))))))"

subsection \<open>DiVAE\<close>

definition sigmoid_cross_entropy_with_logits :: "DiVAE \<Rightarrow> tval \<Rightarrow> tval \<Rightarrow> tval py" where
  "sigmoid_cross_entropy_with_logits self x_true x_recon =
     py_bind (logger_debug ''WARNING sigmoid_cross_entropy_with_logits preliminary'') (\<lambda>_.
     py_bind (lift (torch_max x_recon (torch_zeros_size x_recon))) (\<lambda>a.
     py_bind (lift (tmul x_recon x_true)) (\<lambda>b.
     py_bind (lift (tsub a b)) (\<lambda>c.
     lift (tsub c (Softplus (torch_abs x_recon)))))))"

definition weight_decay_loss :: "DiVAE \<Rightarrow> tval py" where
  "weight_decay_loss self =
     py_bind (logger_debug ''ERROR weight_decay_loss NOT IMPLEMENTED'') (\<lambda>_.
     return_py (Num 0))"

definition kl_div_prior_gradient :: "DiVAE \<Rightarrow> factorial list \<Rightarrow> RBM \<Rightarrow> tval py" where
  "kl_div_prior_gradient self posterior prior_arg =
     py_bind (logger_debug ''ERROR kl_div_prior_gradient'') (\<lambda>_.
     return_py (Num 0))"

definition kl_div_posterior_gradient :: "DiVAE \<Rightarrow> factorial list \<Rightarrow> RBM \<Rightarrow> tval py" where
  "kl_div_posterior_gradient self posterior prior_arg =
     py_bind (logger_debug ''ERROR kl_div_posterior_gradient'') (\<lambda>_.
     return_py (Num 0))"

text \<open>
  The loop of \<^verbatim>\<open>kl_divergence\<close> over \<^verbatim>\<open>zip(posterior, posterior_samples)\<close>, on the three
  accumulators \<^verbatim>\<open>entropy\<close>, \<^verbatim>\<open>entropy_reduced\<close> and \<^verbatim>\<open>cross_entropy\<close>.
\<close>

fun kl_loop :: "RBM \<Rightarrow> (factorial \<times> tval) list \<Rightarrow> tval \<times> tval \<times> tval \<Rightarrow> error + (tval \<times> tval \<times> tval)" where
  "kl_loop pr [] acc = Inr acc"
| "kl_loop pr ((fct, samples) # rest) (ent, ent_reduced, cross_ent) =
     (case entropy fct samples of Inl e \<Rightarrow> Inl e | Inr h \<Rightarrow>
     (case iadd ent h of Inl e \<Rightarrow> Inl e | Inr ent' \<Rightarrow>
     (case torch_sum_dim1 ent' of Inl e \<Rightarrow> Inl e | Inr ent_reduced' \<Rightarrow>
     (case cross_entropy pr samples of Inl e \<Rightarrow> Inl e | Inr c \<Rightarrow>
     (case iadd cross_ent c of Inl e \<Rightarrow> Inl e | Inr cross_ent' \<Rightarrow>
        kl_loop pr rest (ent', ent_reduced', cross_ent'))))))"

text \<open>
  In the first branch the two gradient methods are called without their two positional
  arguments, which is a TypeError at the first call. The condition reads
  \<^verbatim>\<open>self._model\<close> only when the posterior has more than one level (\<^verbatim>\<open>and\<close> evaluates
  its right operand only then).
\<close>

definition kl_divergence :: "DiVAE \<Rightarrow> factorial list \<Rightarrow> tval list \<Rightarrow> tval py" where
  "kl_divergence self posterior posterior_samples =
     py_bind (logger_debug ''ERROR kl_divergence'') (\<lambda>_.
     py_bind (if length posterior > 1
              then (case attr_model self of
                      None \<Rightarrow> raise AttributeError
                    | Some m \<Rightarrow> return_py (module_training m))
              else return_py False) (\<lambda>multi_training.
     if multi_training
     then py_bind (logger_debug ''ERROR kld for training posterior with more than one latent layer'') (\<lambda>_.
          raise TypeError)
     else py_bind (logger_debug ''ERROR kld for evaluation/training of one layer posterior'') (\<lambda>_.
          lift (err_bind (kl_loop (prior self) (zip posterior posterior_samples) (Num 0, Num 0, Num 0))
                  (\<lambda>(ent, ent_reduced, cross_ent). tsub cross_ent ent_reduced)))))"

text \<open>
  The reconstruction term of \<^verbatim>\<open>loss\<close> (its statements on \<^verbatim>\<open>ae_loss_matrix\<close> and
  \<^verbatim>\<open>ae_loss\<close>): the labels are \<^verbatim>\<open>x.view(-1, 784)[0]\<close>.
\<close>

definition ae_loss_term :: "DiVAE \<Rightarrow> tval \<Rightarrow> tval \<Rightarrow> tval py" where
  "ae_loss_term self x x_recon =
     py_bind (lift (view_784 x)) (\<lambda>v.
     py_bind (lift (index0 v)) (\<lambda>x_true.
     py_bind (sigmoid_cross_entropy_with_logits self x_true x_recon) (\<lambda>ae_loss_matrix.
     lift (torch_sum_dim1 ae_loss_matrix))))"

definition DiVAE_loss :: "DiVAE \<Rightarrow> tval \<Rightarrow> tval \<Rightarrow> factorial list \<Rightarrow> tval list \<Rightarrow> tval py" where
  "DiVAE_loss self x x_recon posterior_distribution posterior_samples =
     py_bind (logger_debug ''ERROR loss NOT CORRECTLY IMPLEMENTED'') (\<lambda>_.
     py_bind (ae_loss_term self x x_recon) (\<lambda>ae_loss.
     py_bind (if training self
              then py_bind (kl_divergence self posterior_distribution posterior_samples) (\<lambda>kl_loss.
                   py_bind (weight_decay_loss self) (\<lambda>wd.
                   py_bind (lift (tadd ae_loss kl_loss)) (\<lambda>neg_elbo_per_sample.
                   return_py (neg_elbo_per_sample, wd))))
              else py_bind (kl_divergence self posterior_distribution posterior_samples) (\<lambda>kl_loss.
                   py_bind (lift (tadd ae_loss kl_loss)) (\<lambda>neg_elbo_per_sample.
                   return_py (neg_elbo_per_sample, Num 0)))) (\<lambda>(neg_elbo_per_sample, wd).
     py_bind (lift (torch_mean neg_elbo_per_sample)) (\<lambda>neg_elbo.
     lift (tadd neg_elbo wd)))))"

text \<open>
  \<^verbatim>\<open>forward\<close> prints the decoder's output and calls \<^verbatim>\<open>sys.exit()\<close>; the two statements
  after it are never reached.
\<close>

definition DiVAE_forward :: "DiVAE \<Rightarrow> tval \<Rightarrow> (tval \<times> factorial list \<times> tval list) py" where
  "DiVAE_forward self x =
     py_bind (logger_debug ''forward'') (\<lambda>_.
     py_bind (lift (view_784 x)) (\<lambda>v.
     py_bind (lift (hierarchical_posterior (encoder self) v)) (\<lambda>(posterior_distributions, posterior_samples).
     py_bind (lift (torch_cat1 posterior_samples)) (\<lambda>posterior_samples_concat.
     py_bind (lift (decode (decoder self) posterior_samples_concat)) (\<lambda>output_activations.
     py_bind (print_py output_activations) (\<lambda>_.
     raise SystemExit))))))"

section \<open>\<^verbatim>\<open>HierarchicalEncoderV2._create_hierarchy_network\<close>\<close>

datatype nn_module = Linear int int | Identity | Tanh | ReLU | Sigmoid

record HierarchicalEncoderV2 =
  num_input_nodes :: int
  n_latent_nodes :: int
  encoder_hidden_nodes :: "int list"
  activation_fct :: nn_module

text \<open>
  \<^verbatim>\<open>nn.Linear(in_features, out_features)\<close> allocates an \<open>out_features\<close> by
  \<open>in_features\<close> weight: a negative size is refused.
\<close>

definition nn_Linear :: "int \<Rightarrow> int \<Rightarrow> error + nn_module" where
  "nn_Linear in_features out_features =
     (if in_features < 0 \<or> out_features < 0 then Inl RuntimeError
      else Inr (Linear in_features out_features))"

text \<open>The loop over \<^verbatim>\<open>range(len(layers) - 1)\<close>, appending to \<^verbatim>\<open>moduleLayers\<close>.\<close>

fun module_loop ::
  "HierarchicalEncoderV2 \<Rightarrow> int list \<Rightarrow> nat list \<Rightarrow> nn_module list \<Rightarrow> error + nn_module list" where
  "module_loop self layers [] moduleLayers = Inr moduleLayers"
| "module_loop self layers (l # ls) moduleLayers =
     (case nn_Linear (layers ! l) (layers ! (l + 1)) of
        Inl e \<Rightarrow> Inl e
      | Inr lin \<Rightarrow>
          (let act_fct = (if int l = int (length layers) - 2 then Identity else activation_fct self)
           in module_loop self layers ls (moduleLayers @ [lin, act_fct])))"

definition create_hierarchy_network :: "HierarchicalEncoderV2 \<Rightarrow> int \<Rightarrow> error + nn_module list" where
  "create_hierarchy_network self level =
     (let layers = [num_input_nodes self + level * n_latent_nodes self]
                   @ encoder_hidden_nodes self @ [n_latent_nodes self]
      in module_loop self layers [0..<length layers - 1] [])"

section \<open>Concrete collaborators\<close>

text \<open>
  A model instance to evaluate the methods on: an encoder and a decoder that hand their
  input back, and a prior whose cross entropy is the row sums of its argument.
\<close>

definition example_encoder :: encoder_obj where
  "example_encoder =
     \<lparr>encode = (\<lambda>t. Inr t),
      hierarchical_posterior = (\<lambda>t. Inr ([\<lparr>entropy = (\<lambda>s. Inr s)\<rparr>], [t]))\<rparr>"

definition example_decoder :: decoder_obj where
  "example_decoder = \<lparr>decode = (\<lambda>t. Inr t), decode_posterior_sample = (\<lambda>t. Inr t)\<rparr>"

definition example_prior :: RBM where
  "example_prior = \<lparr>cross_entropy = torch_sum_dim1, get_samples = (\<lambda>n. Inl NotImplementedError)\<rparr>"

definition example_DiVAE :: DiVAE where
  "example_DiVAE = DiVAE_init (Some 32) 256 example_encoder example_decoder example_prior"

definition example_AE :: AEBase where
  "example_AE = AE_init (Some 32) example_encoder example_decoder"

definition example_VAE :: VAE where
  "example_VAE = VAE_init (Some 32) example_encoder example_decoder (\<lambda>t. Inr t) (\<lambda>t. Inr t)"

text \<open>An encoder configuration: 784 inputs, 100 latent units per level, two hidden layers.\<close>

definition example_HierarchicalEncoderV2 :: HierarchicalEncoderV2 where
  "example_HierarchicalEncoderV2 =
     \<lparr>num_input_nodes = 784, n_latent_nodes = 100,
      encoder_hidden_nodes = [200, 200], activation_fct = Tanh\<rparr>"

section \<open>Evaluating the effect combinators\<close>

lemma py_bind_debug: "py_bind (logger_debug msg) f = (Debug msg # fst (f ()), snd (f ()))"
  by (simp add: py_bind_def logger_debug_def split: prod.splits)

lemma py_bind_print: "py_bind (print_py v) f = (Print v # fst (f ()), snd (f ()))"
  by (simp add: py_bind_def print_py_def split: prod.splits)

lemma py_bind_Inr: "py_bind ([], Inr v) f = f v"
  by (simp add: py_bind_def split: prod.splits)

lemma py_bind_Inl: "py_bind (tr, Inl e) f = (tr, Inl e)"
  by (simp add: py_bind_def)

lemma py_bind_value: "py_bind (tr, Inr v) f = (tr @ fst (f v), snd (f v))"
  by (simp add: py_bind_def split: prod.splits)

lemmas py_simps = py_bind_debug py_bind_print py_bind_Inr py_bind_Inl
  lift_def return_py_def raise_def

section \<open>The logistic loss of \<^verbatim>\<open>DiVAE\<close>\<close>

lemma softplus_pos: "0 < softplus y"
proof (cases "y > 20")
  case True then show ?thesis by (simp add: softplus_def)
next
  case False
  have "1 < 1 + exp y" by simp
  then have "0 < ln (1 + exp y)" by (rule ln_gt_zero)
  with False show ?thesis by (simp add: softplus_def)
qed

lemma softplus_ge: "y \<le> softplus y"
proof (cases "y > 20")
  case True then show ?thesis by (simp add: softplus_def)
next
  case False
  have p: "0 < 1 + exp y" by (rule add_pos_pos) simp_all
  have "exp y < 1 + exp y" by simp
  with p have "ln (exp y) < ln (1 + exp y)"
    using ln_less_cancel_iff [of "exp y" "1 + exp y"] by simp
  with False show ?thesis by (simp add: softplus_def)
qed

lemma sce_Num:
  "sigmoid_cross_entropy_with_logits self (Num x) (Num z) =
     ([Debug ''WARNING sigmoid_cross_entropy_with_logits preliminary''],
      Inr (Num (max z 0 - z * x - softplus \<bar>z\<bar>)))"
  by (simp add: sigmoid_cross_entropy_with_logits_def py_simps torch_max_def tmul_def tsub_def
      torch_zeros_size_def tmap_def Softplus_def torch_abs_def)

text \<open>
  Claim C1. For a label \<open>x\<close> and a logit \<open>z\<close> the method is to return the stable logistic
  loss \<open>max(z,0) - z*x + log(1+exp(-|z|))\<close>. The code subtracts the softplus of \<open>|z|\<close>
  where the formula adds the softplus of \<open>-|z|\<close>: on every element the value returned is
  \<open>max(z,0) - z*x - softplus(|z|)\<close>, which lies strictly below the claimed one.
\<close>

theorem sigmoid_cross_entropy_sign:
  "snd (sigmoid_cross_entropy_with_logits self (Num x) (Num z))
     = Inr (Num (max z 0 - z * x - softplus \<bar>z\<bar>))
   \<and> max z 0 - z * x - softplus \<bar>z\<bar> < max z 0 - z * x + ln (1 + exp (- \<bar>z\<bar>))"
proof -
  have "1 < 1 + exp (- \<bar>z\<bar>)" by simp
  then have "0 < ln (1 + exp (- \<bar>z\<bar>))" by (rule ln_gt_zero)
  moreover have "0 < softplus \<bar>z\<bar>" by (rule softplus_pos)
  ultimately show ?thesis by (simp add: sce_Num)
qed

text \<open>
  Claim C7. \<^verbatim>\<open>sigmoid_cross_entropy_with_logits(x, x)\<close> is to be non-negative. With the
  sign of the softplus term as the code has it, the value is negative at every \<open>x\<close>,
  inside \<open>[0, 1]\<close> and outside.
\<close>

theorem sce_self_negative:
  "\<exists>v. snd (sigmoid_cross_entropy_with_logits self (Num x) (Num x)) = Inr (Num v) \<and> v < 0"
proof -
  have sp: "0 < softplus \<bar>x\<bar>" by (rule softplus_pos)
  have sq: "0 \<le> x * x" by simp
  have "max x 0 - x * x - softplus \<bar>x\<bar> < 0"
  proof (cases "x \<le> 0")
    case True
    then have "max x 0 = 0" by simp
    with sp sq show ?thesis by linarith
  next
    case False
    then have m: "max x 0 = x" and a: "\<bar>x\<bar> = x" by simp_all
    from False have "0 < x * x" by simp
    moreover have "x \<le> softplus x" by (rule softplus_ge)
    ultimately show ?thesis unfolding m a by linarith
  qed
  then show ?thesis by (simp add: sce_Num)
qed

section \<open>The unfinished paths\<close>

text \<open>
  Claim C5, as the code has it. Called with their declared arguments,
  \<^verbatim>\<open>weight_decay_loss\<close>, \<^verbatim>\<open>kl_div_prior_gradient\<close> and \<^verbatim>\<open>kl_div_posterior_gradient\<close> each
  hand one debug record to the logger and return the number 0; none of them raises.
\<close>

theorem placeholders_return_zero:
  "weight_decay_loss self = ([Debug ''ERROR weight_decay_loss NOT IMPLEMENTED''], Inr (Num 0))
   \<and> kl_div_prior_gradient self posterior pr = ([Debug ''ERROR kl_div_prior_gradient''], Inr (Num 0))
   \<and> kl_div_posterior_gradient self posterior pr
       = ([Debug ''ERROR kl_div_posterior_gradient''], Inr (Num 0))"
  by (simp add: weight_decay_loss_def kl_div_prior_gradient_def kl_div_posterior_gradient_def
      py_simps)

text \<open>
  Claim C5 as stated fails: on the example instance \<^verbatim>\<open>weight_decay_loss\<close> returns the
  placeholder 0 and no error.
\<close>

theorem weight_decay_loss_returns_placeholder:
  "snd (weight_decay_loss example_DiVAE) = Inr (Num 0)
   \<and> snd (weight_decay_loss example_DiVAE) \<noteq> Inl NotImplementedError"
  by (simp add: weight_decay_loss_def py_simps)

section \<open>\<^verbatim>\<open>DiVAE.forward\<close>\<close>

text \<open>
  Claim C3. \<^verbatim>\<open>forward\<close> is to return the reconstruction with the posterior pairs. No
  call of it returns: whatever the input and the collaborators, it ends in an exception.
\<close>

theorem forward_never_returns: "\<exists>e. snd (DiVAE_forward self x) = Inl e"
proof (cases "view_784 x")
  case (Inl e) then show ?thesis by (simp add: DiVAE_forward_def py_simps)
next
  case v: (Inr v)
  show ?thesis
  proof (cases "hierarchical_posterior (encoder self) v")
    case (Inl e) with v show ?thesis by (simp add: DiVAE_forward_def py_simps)
  next
    case hp: (Inr p)
    obtain ds ss where p: "p = (ds, ss)" by (cases p)
    show ?thesis
    proof (cases "torch_cat1 ss")
      case (Inl e) with v hp p show ?thesis by (simp add: DiVAE_forward_def py_simps)
    next
      case c: (Inr c)
      show ?thesis
      proof (cases "decode (decoder self) c")
        case (Inl e) with v hp p c show ?thesis by (simp add: DiVAE_forward_def py_simps)
      next
        case (Inr out) with v hp p c show ?thesis by (simp add: DiVAE_forward_def py_simps)
      qed
    qed
  qed
qed

text \<open>
  When the reshape, the encoder, the concatenation and the decoder all succeed, the
  exception is the \<^verbatim>\<open>SystemExit\<close> of \<^verbatim>\<open>sys.exit()\<close>, after the decoder output was printed.
\<close>

lemma forward_exits:
  assumes "view_784 x = Inr v" "hierarchical_posterior (encoder self) v = Inr (ds, ss)"
    "torch_cat1 ss = Inr c" "decode (decoder self) c = Inr out"
  shows "DiVAE_forward self x = ([Debug ''forward'', Print out], Inl SystemExit)"
  using assms by (simp add: DiVAE_forward_def py_simps)

section \<open>\<^verbatim>\<open>DiVAE.kl_divergence\<close>\<close>

text \<open>
  Claim C2. For a posterior of several levels outside training the method is to return
  the closed-form estimate. On an instance as the constructor leaves it, in evaluation
  mode, every posterior of two or more levels ends in the AttributeError of reading
  \<^verbatim>\<open>self._model\<close>, before any entropy is computed.
\<close>

theorem kl_multi_eval_raises:
  "kl_divergence ((DiVAE_init latent hidden enc dec rbm)\<lparr>training := False\<rparr>) (f1 # f2 # fs) samples
     = ([Debug ''ERROR kl_divergence''], Inl AttributeError)"
  by (simp add: kl_divergence_def DiVAE_init_def py_simps)

text \<open>
  The single-level half of C2 holds: with the level's entropy a matrix \<open>h\<close> and the
  prior's cross entropy a vector \<open>c\<close> with one entry per row of \<open>h\<close>, the result is
  \<open>c\<close> minus the row sums of \<open>h\<close>.
\<close>

lemma plus_zero_fun: "(+) (0::real) = (\<lambda>x. x)"
  by (rule ext) simp

lemma kl_single:
  assumes "entropy f s = Inr (Mat h)" "cross_entropy (prior self) s = Inr (Vec c)"
    "length c = length h"
  shows "kl_divergence self [f] (s # ss)
     = ([Debug ''ERROR kl_divergence'',
         Debug ''ERROR kld for evaluation/training of one layer posterior''],
        Inr (Vec (map2 (-) c (map sum_list h))))"
  using assms
  by (simp add: kl_divergence_def py_simps err_bind_def iadd_def tadd_def torch_sum_dim1_def
      tsub_def bvec_def plus_zero_fun comp_def)

text \<open>
  Claim C4. For a posterior of several levels in training mode the method is to return
  the sum of the two gradient terms. A freshly constructed instance is in training
  mode, and there every posterior of two or more levels ends in the AttributeError of
  reading \<^verbatim>\<open>self._model\<close>.
\<close>

theorem kl_multi_training_raises:
  "training (DiVAE_init latent hidden enc dec rbm)
   \<and> kl_divergence (DiVAE_init latent hidden enc dec rbm) (f1 # f2 # fs) samples
     = ([Debug ''ERROR kl_divergence''], Inl AttributeError)"
  by (simp add: kl_divergence_def DiVAE_init_def py_simps)

text \<open>
  Were \<^verbatim>\<open>_model\<close> bound to a module in training mode, the branch would still not
  return: the gradient methods are called without their arguments.
\<close>

lemma kl_multi_training_bound_model:
  "kl_divergence (self\<lparr>attr_model := Some (Module True)\<rparr>) (f1 # f2 # fs) samples
     = ([Debug ''ERROR kl_divergence'',
         Debug ''ERROR kld for training posterior with more than one latent layer''],
        Inl TypeError)"
  by (simp add: kl_divergence_def py_simps)

section \<open>The reshape to rows of 784\<close>

lemma upt_0_Suc_map: "[0..<Suc k] = 0 # map Suc [0..<k]"
  by (simp add: upt_conv_Cons map_Suc_upt del: upt_Suc)

lemma concat_chunks:
  "length xs = k * n \<Longrightarrow> concat (map (\<lambda>i. take n (drop (i * n) xs)) [0..<k]) = xs"
proof (induction k arbitrary: xs)
  case 0 then show ?case by simp
next
  case (Suc k)
  have len: "length (drop n xs) = k * n" using Suc.prems by simp
  have "concat (map (\<lambda>i. take n (drop (i * n) xs)) [0..<Suc k])
      = take n xs @ concat (map (\<lambda>i. take n (drop (i * n) (drop n xs))) [0..<k])"
    unfolding upt_0_Suc_map by (simp add: comp_def add.commute)
  also have "\<dots> = take n xs @ drop n xs" using Suc.IH [OF len] by simp
  finally show ?case by simp
qed

lemma length_chunks:
  "length xs = k * n \<Longrightarrow> map length (map (\<lambda>i. take n (drop (i * n) xs)) [0..<k]) = replicate k n"
proof (induction k arbitrary: xs)
  case 0 then show ?case by simp
next
  case (Suc k)
  have len: "length (drop n xs) = k * n" using Suc.prems by simp
  have "map length (map (\<lambda>i. take n (drop (i * n) xs)) [0..<Suc k])
      = length (take n xs) # map length (map (\<lambda>i. take n (drop (i * n) (drop n xs))) [0..<k])"
    unfolding upt_0_Suc_map by (simp add: comp_def add.commute)
  also have "\<dots> = n # replicate k n" using Suc.IH [OF len] Suc.prems by simp
  finally show ?case by simp
qed

lemma chunks_of_rows:
  "list_all (\<lambda>r. length r = n) rows \<Longrightarrow>
   map (\<lambda>i. take n (drop (i * n) (concat rows))) [0..<length rows] = rows"
proof (induction rows)
  case Nil then show ?case by simp
next
  case (Cons r rows)
  then have r: "length r = n" and rs: "list_all (\<lambda>r. length r = n) rows" by simp_all
  have up: "[0..<length (r # rows)] = 0 # map Suc [0..<length rows]"
    using upt_0_Suc_map [of "length rows"] by simp
  have "map (\<lambda>i. take n (drop (i * n) (concat (r # rows)))) [0..<length (r # rows)]
      = r # map (\<lambda>i. take n (drop (i * n) (concat rows))) [0..<length rows]"
    unfolding up using r by (simp add: comp_def)
  with Cons.IH [OF rs] show ?case by simp
qed

lemma length_concat_rows:
  "list_all (\<lambda>r. length r = n) rows \<Longrightarrow> length (concat rows) = length rows * n"
  by (induction rows) simp_all

lemma view_784_numel:
  assumes "length (flatten x) = k * 784" "0 < k"
  shows "view_784 x = Inr (Mat (map (\<lambda>i. take 784 (drop (i * 784) (flatten x))) [0..<k]))"
proof -
  from assms have "flatten x \<noteq> []" by auto
  with assms(1) show ?thesis by (simp add: view_784_def Let_def)
qed

lemma view_784_rows:
  assumes "list_all (\<lambda>r. length r = 784) rows" "rows \<noteq> []"
  shows "view_784 (Mat rows) = Inr (Mat rows)"
proof -
  have len: "length (concat rows) = length rows * 784"
    using assms(1) by (rule length_concat_rows)
  have fl: "flatten (Mat rows) = concat rows" by (simp add: flatten_def)
  from assms(2) have pos: "0 < length rows" by simp
  show ?thesis
    using view_784_numel [of "Mat rows" "length rows", unfolded fl, OF len pos]
      chunks_of_rows [OF assms(1)] by simp
qed

lemma view_784_fails:
  "length (flatten x) mod 784 \<noteq> 0 \<Longrightarrow> view_784 x = Inl RuntimeError"
  by (simp add: view_784_def Let_def)

lemma view_784_width:
  "list_all (\<lambda>r. length r = 784) (case view_784 x of Inr (Mat rows) \<Rightarrow> rows | _ \<Rightarrow> [])"
proof (cases "length (flatten x) mod 784 \<noteq> 0 \<or> length (flatten x) = 0")
  case True then show ?thesis by (simp add: view_784_def Let_def)
next
  case False
  then obtain k where k: "length (flatten x) = k * 784" by (auto simp: mod_eq_0_iff_dvd dvd_def mult.commute)
  with False have kd: "length (flatten x) div 784 = k" by simp
  have "set (map length (map (\<lambda>i. take 784 (drop (i * 784) (flatten x))) [0..<k])) \<subseteq> {784}"
    unfolding length_chunks [OF k] by auto
  then have "list_all (\<lambda>r. length r = 784) (map (\<lambda>i. take 784 (drop (i * 784) (flatten x))) [0..<k])"
    by (auto simp: list_all_iff)
  with False kd show ?thesis by (simp add: view_784_def Let_def)
qed

section \<open>The layers of a hierarchy level\<close>

lemma module_loop_result:
  assumes "list_all (\<lambda>h. 0 \<le> h) layers" "list_all (\<lambda>l. Suc l < length layers) ls"
  shows "module_loop self layers ls acc
     = Inr (acc @ concat (map (\<lambda>l. [Linear (layers ! l) (layers ! (l + 1)),
              if int l = int (length layers) - 2 then Identity else activation_fct self]) ls))"
  using assms(2)
proof (induction ls arbitrary: acc)
  case Nil then show ?case by simp
next
  case (Cons l ls)
  then have l: "Suc l < length layers" and ls: "list_all (\<lambda>l. Suc l < length layers) ls" by simp_all
  from assms(1) l have "0 \<le> layers ! l" "0 \<le> layers ! Suc l"
    by (simp_all add: list_all_length)
  then have lin: "nn_Linear (layers ! l) (layers ! Suc l) = Inr (Linear (layers ! l) (layers ! Suc l))"
    by (simp add: nn_Linear_def)
  show ?case by (simp add: lin Let_def Cons.IH [OF ls])
qed

text \<open>
  Claim C8. For a level index \<open>i \<ge> 0\<close> and a configuration of non-negative sizes,
  \<^verbatim>\<open>_create_hierarchy_network(level=i)\<close> returns a module list whose first module is a
  linear layer of input width \<open>num_input_nodes + i * n_latent_nodes\<close>; at level 0 this
  is the raw input width.
\<close>

theorem first_layer_width:
  assumes "0 \<le> level" "0 \<le> num_input_nodes self" "0 \<le> n_latent_nodes self"
    "list_all (\<lambda>h. 0 \<le> h) (encoder_hidden_nodes self)"
  shows "\<exists>rest. create_hierarchy_network self level
     = Inr (Linear (num_input_nodes self + level * n_latent_nodes self)
                   (hd (encoder_hidden_nodes self @ [n_latent_nodes self])) # rest)"
proof -
  let ?layers = "[num_input_nodes self + level * n_latent_nodes self]
                   @ encoder_hidden_nodes self @ [n_latent_nodes self]"
  have nn: "list_all (\<lambda>h. 0 \<le> h) ?layers" using assms by simp
  have idx: "list_all (\<lambda>l. Suc l < length ?layers) [0..<length ?layers - 1]"
    by (auto simp: list_all_iff)
  have up: "[0..<length ?layers - 1] = 0 # [1..<length ?layers - 1]"
    by (simp add: upt_conv_Cons del: upt_Suc)
  have one: "?layers ! (0 + 1) = hd (encoder_hidden_nodes self @ [n_latent_nodes self])"
    by (simp add: hd_conv_nth)
  show ?thesis
    unfolding create_hierarchy_network_def Let_def module_loop_result [OF nn idx]
    unfolding up using one by simp
qed

theorem first_layer_width_witness:
  "(0::int) \<le> 2 \<and> 0 \<le> num_input_nodes example_HierarchicalEncoderV2
   \<and> 0 \<le> n_latent_nodes example_HierarchicalEncoderV2
   \<and> list_all (\<lambda>h. 0 \<le> h) (encoder_hidden_nodes example_HierarchicalEncoderV2)
   \<and> (\<exists>rest. create_hierarchy_network example_HierarchicalEncoderV2 2
               = Inr (Linear 984 200 # rest))"
proof -
  have h: "(0::int) \<le> 2" "0 \<le> num_input_nodes example_HierarchicalEncoderV2"
    "0 \<le> n_latent_nodes example_HierarchicalEncoderV2"
    "list_all (\<lambda>h. 0 \<le> h) (encoder_hidden_nodes example_HierarchicalEncoderV2)"
    by (simp_all add: example_HierarchicalEncoderV2_def)
  from first_layer_width [OF h] h show ?thesis
    by (simp add: example_HierarchicalEncoderV2_def)
qed

section \<open>The reconstruction term of \<^verbatim>\<open>DiVAE.loss\<close>\<close>

text \<open>
  Broadcasting two matrices built row by row from one list of rows, and a matrix
  against a single row.
\<close>

lemma bmat_maps:
  assumes "\<And>r. r \<in> set R \<Longrightarrow> length (g r) = length (h r)"
  shows "bmat f (map g R) (map h R) = Inr (map (\<lambda>r. map2 f (g r) (h r)) R)"
proof -
  have "sequence (map2 (bvec f) (map g R) (map h R)) = Inr (map (\<lambda>r. map2 f (g r) (h r)) R)"
    using assms by (induction R) (simp_all add: bvec_def)
  then show ?thesis by (simp add: bmat_def)
qed

lemma bmat_row:
  assumes "\<And>r. r \<in> set R \<Longrightarrow> length (g r) = length v"
  shows "bmat f (map g R) [v] = Inr (map (\<lambda>r. map2 f (g r) v) R)"
proof -
  have seq: "sequence (map (\<lambda>r. bvec f r v) (map g R)) = Inr (map (\<lambda>r. map2 f (g r) v) R)"
    using assms by (induction R) (simp_all add: bvec_def)
  show ?thesis
  proof (cases "length R = 1")
    case True
    then obtain r where R: "R = [r]" by (cases R) auto
    with assms show ?thesis by (simp add: bmat_def bvec_def)
  next
    case False
    with seq show ?thesis by (simp add: bmat_def)
  qed
qed

lemma row_loss:
  "length r = length x \<Longrightarrow>
   map2 (-) (map2 (-) (map2 max r (map (\<lambda>_. 0) r)) (map2 (*) r x)) (map (\<lambda>z. softplus \<bar>z\<bar>) r)
     = map2 (\<lambda>z x. max z 0 - z * x - softplus \<bar>z\<bar>) r x"
  by (induction r x rule: list_induct2) simp_all

lemma sce_rows:
  assumes "list_all (\<lambda>r. length r = length x) R"
  shows "sigmoid_cross_entropy_with_logits self (Vec x) (Mat R) =
     ([Debug ''WARNING sigmoid_cross_entropy_with_logits preliminary''],
      Inr (Mat (map (\<lambda>r. map2 (\<lambda>z x. max z 0 - z * x - softplus \<bar>z\<bar>) r x) R)))"
proof -
  have len: "\<And>r. r \<in> set R \<Longrightarrow> length r = length x"
    using assms by (simp add: list_all_iff)
  have a: "torch_max (Mat R) (torch_zeros_size (Mat R))
      = Inr (Mat (map (\<lambda>r. map2 max r (map (\<lambda>_. 0) r)) R))"
    using bmat_maps [of R "\<lambda>r. r" "map (\<lambda>_. 0)" max]
    by (simp add: torch_max_def torch_zeros_size_def tmap_def)
  have b: "tmul (Mat R) (Vec x) = Inr (Mat (map (\<lambda>r. map2 (*) r x) R))"
    using bmat_row [of R "\<lambda>r. r" x "(*)"] len by (simp add: tmul_def)
  have c: "tsub (Mat (map (\<lambda>r. map2 max r (map (\<lambda>_. 0) r)) R)) (Mat (map (\<lambda>r. map2 (*) r x) R))
      = Inr (Mat (map (\<lambda>r. map2 (-) (map2 max r (map (\<lambda>_. 0) r)) (map2 (*) r x)) R))"
    using bmat_maps [of R "\<lambda>r. map2 max r (map (\<lambda>_. 0) r)" "\<lambda>r. map2 (*) r x" "(-)"] len
    by (simp add: tsub_def)
  have d: "tsub (Mat (map (\<lambda>r. map2 (-) (map2 max r (map (\<lambda>_. 0) r)) (map2 (*) r x)) R))
       (Softplus (torch_abs (Mat R)))
      = Inr (Mat (map (\<lambda>r. map2 (-) (map2 (-) (map2 max r (map (\<lambda>_. 0) r)) (map2 (*) r x))
                               (map (\<lambda>z. softplus \<bar>z\<bar>) r)) R))"
    using bmat_maps [of R "\<lambda>r. map2 (-) (map2 max r (map (\<lambda>_. 0) r)) (map2 (*) r x)"
        "map (\<lambda>z. softplus \<bar>z\<bar>)" "(-)"] len
    by (simp add: tsub_def Softplus_def torch_abs_def tmap_def comp_def)
  have e: "map (\<lambda>r. map2 (-) (map2 (-) (map2 max r (map (\<lambda>_. 0) r)) (map2 (*) r x))
                               (map (\<lambda>z. softplus \<bar>z\<bar>) r)) R
      = map (\<lambda>r. map2 (\<lambda>z x. max z 0 - z * x - softplus \<bar>z\<bar>) r x) R"
    by (rule map_cong [OF refl]) (simp add: row_loss len)
  show ?thesis
    unfolding sigmoid_cross_entropy_with_logits_def
    by (simp only: a b c d e py_simps fst_conv snd_conv)
qed

lemma ae_loss_term_rows:
  assumes "length r0 = 784" "list_all (\<lambda>r. length r = 784) rest"
    "list_all (\<lambda>r. length r = 784) R"
  shows "snd (ae_loss_term self (Mat (r0 # rest)) (Mat R))
     = Inr (Vec (map (\<lambda>r. sum_list (map2 (\<lambda>z x. max z 0 - z * x - softplus \<bar>z\<bar>) r r0)) R))"
proof -
  have v: "view_784 (Mat (r0 # rest)) = Inr (Mat (r0 # rest))"
    using assms(1,2) by (intro view_784_rows) simp_all
  have R: "list_all (\<lambda>r. length r = length r0) R" using assms(1,3) by simp
  show ?thesis
    by (simp add: ae_loss_term_def v index0_def sce_rows [OF R] py_simps py_bind_value
        torch_sum_dim1_def comp_def)
qed

text \<open>
  Claim C6. The \<open>k\<close>-th scalar of the reconstruction term is to be the logistic loss of
  reconstruction row \<open>k\<close> against input row \<open>k\<close>. The code takes the labels from
  \<^verbatim>\<open>x.view(-1, 784)[0]\<close>, so every reconstruction row is scored against input row 0
  (lemma \<open>ae_loss_term_rows\<close>). On the batch of a zero row and a one row, with logits 1
  everywhere, the second scalar is the loss against the zero row, not the value the
  method gives for the one row against its own reconstruction.
\<close>

theorem ae_loss_labels_first_row:
  "snd (ae_loss_term self (Mat [replicate 784 0, replicate 784 1])
                          (Mat [replicate 784 1, replicate 784 1]))
     = Inr (Vec [784 * (1 - softplus 1), 784 * (1 - softplus 1)])
   \<and> snd (ae_loss_term self (Mat [replicate 784 1]) (Mat [replicate 784 1]))
     = Inr (Vec [784 * (0 - softplus 1)])
   \<and> 784 * (1 - softplus 1) \<noteq> 784 * (0 - softplus 1)"
proof -
  have 1: "snd (ae_loss_term self (Mat [replicate 784 0, replicate 784 1])
                          (Mat [replicate 784 1, replicate 784 1]))
     = Inr (Vec [784 * (1 - softplus 1), 784 * (1 - softplus 1)])"
    by (subst ae_loss_term_rows) (simp_all add: sum_list_replicate)
  have 2: "snd (ae_loss_term self (Mat [replicate 784 1]) (Mat [replicate 784 1]))
     = Inr (Vec [784 * (0 - softplus 1)])"
    by (subst ae_loss_term_rows) (simp_all add: sum_list_replicate)
  from 1 2 show ?thesis by simp
qed

section \<open>\<^verbatim>\<open>VAE.loss\<close> and \<^verbatim>\<open>VAE.reparameterize\<close>\<close>

text \<open>Element-wise operations on two tensors of one shape, seen on the flattened elements.\<close>

lemma broadcast_Num_left: "broadcast f (Num c) t = Inr (tmap (f c) t)"
  by (cases t) (simp_all add: tmap_def)

lemma flatten_tmap: "flatten (tmap g t) = map g (flatten t)"
  by (cases t) (simp_all add: tmap_def flatten_def map_concat)

lemma same_shape_tmap_left: "same_shape (tmap g a) b = same_shape a b"
  by (cases a; cases b) (simp_all add: same_shape_def tmap_def comp_def)

lemma same_shape_tmap_right: "same_shape a (tmap g b) = same_shape a b"
  by (cases a; cases b) (simp_all add: same_shape_def tmap_def comp_def)

lemma same_shape_sym: "same_shape a b \<Longrightarrow> same_shape b a"
  by (cases a; cases b) (simp_all add: same_shape_def)

lemma same_shape_trans: "same_shape a b \<Longrightarrow> same_shape b c \<Longrightarrow> same_shape a c"
  by (cases a; cases b; cases c) (simp_all add: same_shape_def)

lemma same_shape_length: "same_shape a b \<Longrightarrow> length (flatten a) = length (flatten b)"
  by (cases a; cases b) (simp_all add: same_shape_def flatten_def length_concat)

lemma concat_map2_rows:
  "map length A = map length B \<Longrightarrow> concat (map2 (map2 f) A B) = map2 f (concat A) (concat B)"
proof (induction A arbitrary: B)
  case Nil then show ?case by simp
next
  case (Cons a A)
  then obtain b B' where B: "B = b # B'" by (cases B) auto
  with Cons.prems have "length a = length b" "map length A = map length B'" by simp_all
  with Cons.IH [of B'] B show ?case by simp
qed

lemma bmat_same:
  assumes "map length A = map length B"
  shows "bmat f A B = Inr (map2 (map2 f) A B)"
proof -
  have "sequence (map2 (bvec f) A B) = Inr (map2 (map2 f) A B)"
    using assms
  proof (induction A arbitrary: B)
    case Nil then show ?case by simp
  next
    case (Cons a A)
    then obtain b B' where B: "B = b # B'" by (cases B) auto
    with Cons.prems have "length a = length b" "map length A = map length B'" by simp_all
    with Cons.IH [of B'] B show ?case by (simp add: bvec_def)
  qed
  moreover from assms have "length A = length B" by (rule map_eq_imp_length_eq)
  ultimately show ?thesis by (simp add: bmat_def)
qed

lemma map_length_map2_rows:
  "map length A = map length B \<Longrightarrow> map length (map2 (map2 f) A B) = map length A"
proof (induction A arbitrary: B)
  case Nil then show ?case by simp
next
  case (Cons a A)
  then obtain b B' where B: "B = b # B'" by (cases B) auto
  with Cons.prems have "length a = length b" "map length A = map length B'" by simp_all
  with Cons.IH [of B'] B show ?case by simp
qed

lemma broadcast_same_shape:
  assumes "same_shape a b"
  shows "\<exists>r. broadcast f a b = Inr r \<and> same_shape r a
             \<and> flatten r = map2 f (flatten a) (flatten b)"
proof (cases a)
  case (Num x)
  with assms obtain y where "b = Num y" by (cases b) (simp_all add: same_shape_def)
  with Num show ?thesis by (simp add: same_shape_def flatten_def)
next
  case (Vec u)
  with assms obtain v where "b = Vec v" "length u = length v"
    by (cases b) (simp_all add: same_shape_def)
  with Vec show ?thesis by (simp add: same_shape_def flatten_def bvec_def)
next
  case (Mat A)
  with assms obtain B where b: "b = Mat B" and eq: "map length A = map length B"
    by (cases b) (simp_all add: same_shape_def)
  have 1: "broadcast f a b = Inr (Mat (map2 (map2 f) A B))"
    using bmat_same [OF eq, of f] by (simp add: Mat b)
  have 2: "same_shape (Mat (map2 (map2 f) A B)) a"
    unfolding Mat same_shape_def using map_length_map2_rows [OF eq, of f]
    by (simp del: map_map)
  have 3: "flatten (Mat (map2 (map2 f) A B)) = map2 f (flatten a) (flatten b)"
    using concat_map2_rows [OF eq, of f] by (simp add: flatten_def Mat b)
  from 1 2 3 show ?thesis by (intro exI [of _ "Mat (map2 (map2 f) A B)"] conjI)
qed

text \<open>The draw of \<^verbatim>\<open>torch.randn_like\<close> has the shape of its argument.\<close>

lemma fill_rows_concat:
  "concat (fill_rows draw k m) = map draw [k..<k + length (concat m)]"
proof (induction m arbitrary: k)
  case Nil then show ?case by simp
next
  case (Cons r m)
  have "[k..<k + length r + length (concat m)]
      = [k..<k + length r] @ [k + length r..<k + length r + length (concat m)]"
    by (rule upt_add_eq_append) simp
  with Cons.IH [of "k + length r"] show ?case by (simp add: add.assoc)
qed

lemma fill_rows_lengths: "map length (fill_rows draw k m) = map length m"
  by (induction m arbitrary: k) simp_all

lemma randn_like_shape: "same_shape (randn_like draw t) t"
  by (cases t) (simp_all add: randn_like_def same_shape_def fill_rows_lengths)

lemma randn_like_flatten: "flatten (randn_like draw t) = map draw [0..<length (flatten t)]"
  by (cases t) (simp_all add: randn_like_def flatten_def fill_rows_concat)

lemma reparameterize_value:
  assumes "same_shape mu logvar"
  shows "\<exists>z. reparameterize draw mu logvar = Inr z \<and> same_shape z mu
     \<and> flatten z = map (\<lambda>i. flatten mu ! i + draw i * exp (1 / 2 * flatten logvar ! i))
                       [0..<length (flatten mu)]"
proof -
  let ?eps = "randn_like draw mu"
  let ?h = "tmap ((*) (1 / 2)) logvar"
  have len: "length (flatten logvar) = length (flatten mu)"
    using same_shape_length [OF assms] by simp
  have h: "tmul (Num (1 / 2)) logvar = Inr ?h"
    by (simp add: tmul_def broadcast_Num_left)
  have "same_shape ?eps (torch_exp ?h)"
    unfolding torch_exp_def same_shape_tmap_right
    by (rule same_shape_trans [OF randn_like_shape assms])
  from broadcast_same_shape [OF this, of "(*)"]
  obtain s where s: "tmul ?eps (torch_exp ?h) = Inr s" "same_shape s ?eps"
    "flatten s = map2 (*) (flatten ?eps) (flatten (torch_exp ?h))"
    by (auto simp: tmul_def)
  have "same_shape mu s"
    by (rule same_shape_sym [OF same_shape_trans [OF s(2) randn_like_shape]])
  from broadcast_same_shape [OF this, of "(+)"]
  obtain z where z: "tadd mu s = Inr z" "same_shape z mu"
    "flatten z = map2 (+) (flatten mu) (flatten s)"
    by (auto simp: tadd_def)
  have val: "reparameterize draw mu logvar = Inr z"
    by (simp add: reparameterize_def Let_def h s(1) z(1) err_bind_def)
  have "flatten z = map (\<lambda>i. flatten mu ! i + draw i * exp (1 / 2 * flatten logvar ! i))
                       [0..<length (flatten mu)]"
    unfolding z(3) s(3)
    by (rule nth_equalityI)
      (simp_all add: randn_like_flatten torch_exp_def flatten_tmap len)
  with val z(2) show ?thesis by (intro exI [of _ z] conjI)
qed

lemma kl_term:
  assumes "same_shape mu logvar"
  shows "\<exists>t1 t2 t3. tadd (Num 1) logvar = Inr t1 \<and> tsub t1 (pow2 mu) = Inr t2
     \<and> tsub t2 (torch_exp logvar) = Inr t3
     \<and> flatten t3 = map2 (\<lambda>l m. 1 + l - m ^ 2 - exp l) (flatten logvar) (flatten mu)"
proof -
  let ?t1 = "tmap ((+) 1) logvar"
  have len: "length (flatten logvar) = length (flatten mu)"
    using same_shape_length [OF assms] by simp
  have t1: "tadd (Num 1) logvar = Inr ?t1" by (simp add: tadd_def broadcast_Num_left)
  have "same_shape ?t1 (pow2 mu)"
    unfolding pow2_def same_shape_tmap_left same_shape_tmap_right
    by (rule same_shape_sym [OF assms])
  from broadcast_same_shape [OF this, of "(-)"]
  obtain t2 where t2: "tsub ?t1 (pow2 mu) = Inr t2" "same_shape t2 ?t1"
    "flatten t2 = map2 (-) (flatten ?t1) (flatten (pow2 mu))"
    by (auto simp: tsub_def)
  have "same_shape t2 (torch_exp logvar)"
    using t2(2) unfolding torch_exp_def same_shape_tmap_right .
  from broadcast_same_shape [OF this, of "(-)"]
  obtain t3 where t3: "tsub t2 (torch_exp logvar) = Inr t3"
    "flatten t3 = map2 (-) (flatten t2) (flatten (torch_exp logvar))"
    by (auto simp: tsub_def)
  have "flatten t3 = map2 (\<lambda>l m. 1 + l - m ^ 2 - exp l) (flatten logvar) (flatten mu)"
    unfolding t3(2) t2(3)
    by (rule nth_equalityI) (simp_all add: pow2_def torch_exp_def flatten_tmap len)
  with t1 t2(1) t3(1) show ?thesis by (intro exI [of _ "?t1"] exI [of _ t2] exI [of _ t3] conjI)
qed

text \<open>
  Claim C9. For a batch \<open>x\<close> of \<open>N \<ge> 1\<close> rows of 784 elements, a reconstruction \<open>x_recon\<close>
  of \<open>N\<close> rows of 784 probabilities in \<open>[0, 1]\<close>, and \<open>mu\<close>, \<open>logvar\<close> of one shape (the
  inputs the operations accept), \<^verbatim>\<open>VAE.loss\<close> returns the summed binary cross entropy of
  \<open>x_recon\<close> against \<open>x\<close> minus \<open>0.5 * sum(1 + logvar - mu^2 - exp(logvar))\<close>, and
  \<^verbatim>\<open>VAE.reparameterize\<close> returns, element by element, \<open>mu + eps * exp(0.5 * logvar)\<close>
  where \<open>eps\<close> is the draw of the standard normal generator for that position.
\<close>

theorem VAE_loss_and_reparameterize:
  assumes "list_all (\<lambda>r. length r = 784) R" "R \<noteq> []"
    "length (flatten x) = length R * 784"
    "list_all (\<lambda>p. 0 \<le> p \<and> p \<le> 1) (concat R)"
    "same_shape mu logvar"
  shows "snd (VAE_loss self x (Mat R) mu logvar)
      = Inr (Num (sum_list (map2 bce_elem (concat R) (flatten x))
                  - 1 / 2 * sum_list (map2 (\<lambda>l m. 1 + l - m ^ 2 - exp l)
                                           (flatten logvar) (flatten mu))))
    \<and> (\<exists>z. reparameterize draw mu logvar = Inr z \<and> same_shape z mu
          \<and> flatten z = map (\<lambda>i. flatten mu ! i + draw i * exp (1 / 2 * flatten logvar ! i))
                            [0..<length (flatten mu)])"
proof -
  let ?v = "map (\<lambda>i. take 784 (drop (i * 784) (flatten x))) [0..<length R]"
  from assms(2) have pos: "0 < length R" by simp
  have v: "view_784 x = Inr (Mat ?v)" by (rule view_784_numel [OF assms(3) pos])
  have fv: "concat ?v = flatten x" by (rule concat_chunks [OF assms(3)])
  have lenR: "map length R = replicate (length R) 784"
    using assms(1) by (induction R) simp_all
  have lenv: "map length ?v = replicate (length R) 784"
    by (rule length_chunks [OF assms(3)])
  have sh: "same_shape (Mat R) (Mat ?v)"
    unfolding same_shape_def using lenR lenv by (simp del: map_map)
  have bce: "binary_cross_entropy_sum (Mat R) (Mat ?v)
      = Inr (Num (sum_list (map2 bce_elem (concat R) (flatten x))))"
    using sh assms(4) fv by (simp add: binary_cross_entropy_sum_def flatten_def)
  from kl_term [OF assms(5)]
  obtain t1 t2 t3 where t: "tadd (Num 1) logvar = Inr t1" "tsub t1 (pow2 mu) = Inr t2"
    "tsub t2 (torch_exp logvar) = Inr t3"
    "flatten t3 = map2 (\<lambda>l m. 1 + l - m ^ 2 - exp l) (flatten logvar) (flatten mu)"
    by (elim exE conjE) (rule that)
  have "snd (VAE_loss self x (Mat R) mu logvar)
      = Inr (Num (sum_list (map2 bce_elem (concat R) (flatten x))
                  - 1 / 2 * sum_list (map2 (\<lambda>l m. 1 + l - m ^ 2 - exp l)
                                           (flatten logvar) (flatten mu))))"
    using t(1,2,3) by (simp add: VAE_loss_def v bce t(4) py_simps torch_sum_def tmul_def tsub_def tadd_def)
  with reparameterize_value [OF assms(5), of draw] show ?thesis by (intro conjI)
qed

theorem VAE_loss_and_reparameterize_witness:
  "list_all (\<lambda>r. length r = 784) [replicate 784 (1 / 2 :: real)]
   \<and> [replicate 784 (1 / 2 :: real)] \<noteq> []
   \<and> length (flatten (Vec (replicate 784 1))) = length [replicate 784 (1 / 2 :: real)] * 784
   \<and> list_all (\<lambda>p. 0 \<le> p \<and> p \<le> 1) (concat [replicate 784 (1 / 2 :: real)])
   \<and> same_shape (Vec [0]) (Vec [0])
   \<and> snd (VAE_loss example_VAE (Vec (replicate 784 1)) (Mat [replicate 784 (1 / 2)])
             (Vec [0]) (Vec [0]))
       = Inr (Num (784 * bce_elem (1 / 2) 1))
   \<and> (\<exists>z. reparameterize (\<lambda>i. 1) (Vec [0]) (Vec [0]) = Inr z \<and> flatten z = [1])"
proof -
  have h1: "list_all (\<lambda>r. length r = 784) [replicate 784 (1 / 2 :: real)]" by simp
  have h2: "[replicate 784 (1 / 2 :: real)] \<noteq> []" by simp
  have h3: "length (flatten (Vec (replicate 784 1)))
      = length [replicate 784 (1 / 2 :: real)] * 784"
    by (simp add: flatten_def)
  have h4: "list_all (\<lambda>p. 0 \<le> p \<and> p \<le> 1) (concat [replicate 784 (1 / 2 :: real)])"
    by (simp add: list_all_iff)
  have h5: "same_shape (Vec [0]) (Vec [0])" by (simp add: same_shape_def)
  from VAE_loss_and_reparameterize [OF h1 h2 h3 h4 h5, of example_VAE "\<lambda>i. 1"]
  have c: "snd (VAE_loss example_VAE (Vec (replicate 784 1)) (Mat [replicate 784 (1 / 2)])
             (Vec [0]) (Vec [0]))
       = Inr (Num (784 * bce_elem (1 / 2) 1))"
    and r: "\<exists>z. reparameterize (\<lambda>i. 1) (Vec [0]) (Vec [0]) = Inr z \<and> flatten z = [1]"
    by (auto simp add: flatten_def sum_list_replicate)
  from h1 h2 h3 h4 h5 c r show ?thesis by (intro conjI)
qed

section \<open>The reshape inside \<^verbatim>\<open>forward\<close> and \<^verbatim>\<open>loss\<close>\<close>

text \<open>
  An input is accepted by the reshape exactly when its elements, in order, are the
  concatenation of one or more rows of 784; the reshape then returns those rows.
\<close>

lemma view_784_concat:
  assumes "list_all (\<lambda>r. length r = 784) rows" "rows \<noteq> []" "flatten x = concat rows"
  shows "view_784 x = Inr (Mat rows)"
proof -
  have len: "length (flatten x) = length rows * 784"
    unfolding assms(3) using assms(1) by (rule length_concat_rows)
  from assms(2) have pos: "0 < length rows" by simp
  show ?thesis
    using view_784_numel [OF len pos] chunks_of_rows [OF assms(1)]
    unfolding assms(3) by simp
qed

lemma accepted_input_rows:
  assumes "0 < k" "length (flatten x) = k * 784"
  shows "\<exists>r rs. list_all (\<lambda>w. length w = 784) (r # rs) \<and> flatten x = concat (r # rs)
           \<and> length (r # rs) = k"
proof -
  let ?rows = "map (\<lambda>i. take 784 (drop (i * 784) (flatten x))) [0..<k]"
  have c: "flatten x = concat ?rows" by (rule concat_chunks [OF assms(2), symmetric])
  have "set (map length ?rows) \<subseteq> {784}"
    unfolding length_chunks [OF assms(2)] by auto
  then have w: "list_all (\<lambda>w. length w = 784) ?rows" by (auto simp: list_all_iff)
  have l: "length ?rows = k" by simp
  with assms(1) obtain r rs where rows: "?rows = r # rs" by (cases ?rows) auto
  from c w l show ?thesis unfolding rows by (intro exI [of _ r] exI [of _ rs] conjI)
qed

text \<open>
  Claim C10. \<^verbatim>\<open>forward\<close> and \<^verbatim>\<open>loss\<close> of \<open>AE\<close>, \<open>VAE\<close> and \<open>DiVAE\<close> reshape their input to
  rows of exactly 784 elements, whatever the instance and its \<^verbatim>\<open>latent_dimensions\<close>.
  On an input whose number of elements is not a multiple of 784 each of the six
  operations ends in the RuntimeError of the reshape; nothing but the debug record that
  precedes the reshape has happened, and no collaborator or other argument is consulted.
  On an accepted input, whose elements are the rows \<open>r # rs\<close> of width 784, each
  operation goes on with exactly these rows: the encoder of \<open>AE\<close>, \<open>VAE\<close> and \<open>DiVAE\<close> is
  called on the matrix of the rows, the binary cross entropy of \<open>AE\<close> and \<open>VAE\<close> takes it
  as its target, and \<^verbatim>\<open>DiVAE.loss\<close> takes the first row, of width 784, as its labels.
\<close>

theorem reshape_784:
  "(length (flatten x) mod 784 \<noteq> 0 \<longrightarrow>
      AE_forward ae x = ([], Inl RuntimeError)
    \<and> AE_loss ae x ae_recon = ([], Inl RuntimeError)
    \<and> VAE_forward draw vae x = ([], Inl RuntimeError)
    \<and> VAE_loss vae x vae_recon mu logvar = ([Debug ''loss''], Inl RuntimeError)
    \<and> DiVAE_forward di x = ([Debug ''forward''], Inl RuntimeError)
    \<and> DiVAE_loss di x di_recon posterior samples
        = ([Debug ''ERROR loss NOT CORRECTLY IMPLEMENTED''], Inl RuntimeError))
   \<and> (list_all (\<lambda>w. length w = 784) (r # rs) \<and> flatten x = concat (r # rs) \<longrightarrow>
      view_784 x = Inr (Mat (r # rs))
    \<and> AE_forward ae x =
        py_bind (lift (encode (encoder ae) (Mat (r # rs)))) (\<lambda>zeta.
        py_bind (lift (decode (decoder ae) zeta)) (\<lambda>x_recon.
        return_py (x_recon, zeta)))
    \<and> AE_loss ae x ae_recon = lift (binary_cross_entropy_sum ae_recon (Mat (r # rs)))
    \<and> VAE_forward draw vae x =
        py_bind (lift (encode (encoder vae) (Mat (r # rs)))) (\<lambda>x_prime.
        py_bind (lift (reparamLayers_mu vae x_prime)) (\<lambda>mu.
        py_bind (lift (reparamLayers_var vae x_prime)) (\<lambda>logvar.
        py_bind (lift (reparameterize draw mu logvar)) (\<lambda>zeta.
        py_bind (lift (decode (decoder vae) zeta)) (\<lambda>x_recon.
        return_py (x_recon, mu, logvar, zeta))))))
    \<and> VAE_loss vae x vae_recon mu logvar =
        py_bind (logger_debug ''loss'') (\<lambda>_.
        py_bind (lift (binary_cross_entropy_sum vae_recon (Mat (r # rs)))) (\<lambda>auto_loss.
        py_bind (lift (tadd (Num 1) logvar)) (\<lambda>t1.
        py_bind (lift (tsub t1 (pow2 mu))) (\<lambda>t2.
        py_bind (lift (tsub t2 (torch_exp logvar))) (\<lambda>t3.
        py_bind (lift (tmul (Num (1 / 2)) (torch_sum t3))) (\<lambda>kl_loss.
        lift (tsub auto_loss kl_loss)))))))
    \<and> DiVAE_forward di x =
        py_bind (logger_debug ''forward'') (\<lambda>_.
        py_bind (lift (hierarchical_posterior (encoder di) (Mat (r # rs))))
          (\<lambda>(posterior_distributions, posterior_samples).
        py_bind (lift (torch_cat1 posterior_samples)) (\<lambda>posterior_samples_concat.
        py_bind (lift (decode (decoder di) posterior_samples_concat)) (\<lambda>output_activations.
        py_bind (print_py output_activations) (\<lambda>_.
        raise SystemExit)))))
    \<and> ae_loss_term di x di_recon =
        py_bind (sigmoid_cross_entropy_with_logits di (Vec r) di_recon) (\<lambda>ae_loss_matrix.
        lift (torch_sum_dim1 ae_loss_matrix))
    \<and> DiVAE_loss di x di_recon posterior samples =
        py_bind (logger_debug ''ERROR loss NOT CORRECTLY IMPLEMENTED'') (\<lambda>_.
        py_bind (py_bind (sigmoid_cross_entropy_with_logits di (Vec r) di_recon)
                   (\<lambda>ae_loss_matrix. lift (torch_sum_dim1 ae_loss_matrix))) (\<lambda>ae_loss.
        py_bind (if training di
                 then py_bind (kl_divergence di posterior samples) (\<lambda>kl_loss.
                      py_bind (weight_decay_loss di) (\<lambda>wd.
                      py_bind (lift (tadd ae_loss kl_loss)) (\<lambda>neg_elbo_per_sample.
                      return_py (neg_elbo_per_sample, wd))))
                 else py_bind (kl_divergence di posterior samples) (\<lambda>kl_loss.
                      py_bind (lift (tadd ae_loss kl_loss)) (\<lambda>neg_elbo_per_sample.
                      return_py (neg_elbo_per_sample, Num 0)))) (\<lambda>(neg_elbo_per_sample, wd).
        py_bind (lift (torch_mean neg_elbo_per_sample)) (\<lambda>neg_elbo.
        lift (tadd neg_elbo wd))))))"
proof (intro conjI impI)
  assume "length (flatten x) mod 784 \<noteq> 0"
  then have v: "view_784 x = Inl RuntimeError" by (rule view_784_fails)
  show "AE_forward ae x = ([], Inl RuntimeError)" by (simp add: AE_forward_def v py_simps)
  show "AE_loss ae x ae_recon = ([], Inl RuntimeError)" by (simp add: AE_loss_def v py_simps)
  show "VAE_forward draw vae x = ([], Inl RuntimeError)"
    by (simp add: VAE_forward_def v py_simps)
  show "VAE_loss vae x vae_recon mu logvar = ([Debug ''loss''], Inl RuntimeError)"
    by (simp add: VAE_loss_def v py_simps)
  show "DiVAE_forward di x = ([Debug ''forward''], Inl RuntimeError)"
    by (simp add: DiVAE_forward_def v py_simps)
  show "DiVAE_loss di x di_recon posterior samples
        = ([Debug ''ERROR loss NOT CORRECTLY IMPLEMENTED''], Inl RuntimeError)"
    by (simp add: DiVAE_loss_def ae_loss_term_def v py_simps)
next
  assume a: "list_all (\<lambda>w. length w = 784) (r # rs) \<and> flatten x = concat (r # rs)"
  then have v: "view_784 x = Inr (Mat (r # rs))"
    by (intro view_784_concat) simp_all
  have bind: "\<And>(a::tval) (f::tval \<Rightarrow> 'z py). py_bind (lift (Inr a)) f = f a"
    by (simp add: py_simps)
  show "view_784 x = Inr (Mat (r # rs))" by (rule v)
  show "AE_forward ae x =
        py_bind (lift (encode (encoder ae) (Mat (r # rs)))) (\<lambda>zeta.
        py_bind (lift (decode (decoder ae) zeta)) (\<lambda>x_recon.
        return_py (x_recon, zeta)))"
    unfolding AE_forward_def v bind ..
  show "AE_loss ae x ae_recon = lift (binary_cross_entropy_sum ae_recon (Mat (r # rs)))"
    unfolding AE_loss_def v bind ..
  show "VAE_forward draw vae x =
        py_bind (lift (encode (encoder vae) (Mat (r # rs)))) (\<lambda>x_prime.
        py_bind (lift (reparamLayers_mu vae x_prime)) (\<lambda>mu.
        py_bind (lift (reparamLayers_var vae x_prime)) (\<lambda>logvar.
        py_bind (lift (reparameterize draw mu logvar)) (\<lambda>zeta.
        py_bind (lift (decode (decoder vae) zeta)) (\<lambda>x_recon.
        return_py (x_recon, mu, logvar, zeta))))))"
    unfolding VAE_forward_def v bind ..
  show "VAE_loss vae x vae_recon mu logvar =
        py_bind (logger_debug ''loss'') (\<lambda>_.
        py_bind (lift (binary_cross_entropy_sum vae_recon (Mat (r # rs)))) (\<lambda>auto_loss.
        py_bind (lift (tadd (Num 1) logvar)) (\<lambda>t1.
        py_bind (lift (tsub t1 (pow2 mu))) (\<lambda>t2.
        py_bind (lift (tsub t2 (torch_exp logvar))) (\<lambda>t3.
        py_bind (lift (tmul (Num (1 / 2)) (torch_sum t3))) (\<lambda>kl_loss.
        lift (tsub auto_loss kl_loss)))))))"
    unfolding VAE_loss_def v bind ..
  show "DiVAE_forward di x =
        py_bind (logger_debug ''forward'') (\<lambda>_.
        py_bind (lift (hierarchical_posterior (encoder di) (Mat (r # rs))))
          (\<lambda>(posterior_distributions, posterior_samples).
        py_bind (lift (torch_cat1 posterior_samples)) (\<lambda>posterior_samples_concat.
        py_bind (lift (decode (decoder di) posterior_samples_concat)) (\<lambda>output_activations.
        py_bind (print_py output_activations) (\<lambda>_.
        raise SystemExit)))))"
    unfolding DiVAE_forward_def v bind ..
  have i: "index0 (Mat (r # rs)) = Inr (Vec r)"
    by (simp add: index0_def)
  show t: "ae_loss_term di x di_recon =
        py_bind (sigmoid_cross_entropy_with_logits di (Vec r) di_recon) (\<lambda>ae_loss_matrix.
        lift (torch_sum_dim1 ae_loss_matrix))"
    unfolding ae_loss_term_def v i bind ..
  show "DiVAE_loss di x di_recon posterior samples =
        py_bind (logger_debug ''ERROR loss NOT CORRECTLY IMPLEMENTED'') (\<lambda>_.
        py_bind (py_bind (sigmoid_cross_entropy_with_logits di (Vec r) di_recon)
                   (\<lambda>ae_loss_matrix. lift (torch_sum_dim1 ae_loss_matrix))) (\<lambda>ae_loss.
        py_bind (if training di
                 then py_bind (kl_divergence di posterior samples) (\<lambda>kl_loss.
                      py_bind (weight_decay_loss di) (\<lambda>wd.
                      py_bind (lift (tadd ae_loss kl_loss)) (\<lambda>neg_elbo_per_sample.
                      return_py (neg_elbo_per_sample, wd))))
                 else py_bind (kl_divergence di posterior samples) (\<lambda>kl_loss.
                      py_bind (lift (tadd ae_loss kl_loss)) (\<lambda>neg_elbo_per_sample.
                      return_py (neg_elbo_per_sample, Num 0)))) (\<lambda>(neg_elbo_per_sample, wd).
        py_bind (lift (torch_mean neg_elbo_per_sample)) (\<lambda>neg_elbo.
        lift (tadd neg_elbo wd)))))"
    unfolding DiVAE_loss_def t ..
qed

theorem reshape_784_witness:
  "length (flatten (Vec [1])) mod 784 \<noteq> 0
   \<and> AE_forward example_AE (Vec [1]) = ([], Inl RuntimeError)
   \<and> AE_loss example_AE (Vec [1]) (Vec [1]) = ([], Inl RuntimeError)
   \<and> VAE_forward (\<lambda>i. 0) example_VAE (Vec [1]) = ([], Inl RuntimeError)
   \<and> VAE_loss example_VAE (Vec [1]) (Vec [1]) (Vec [0]) (Vec [0])
       = ([Debug ''loss''], Inl RuntimeError)
   \<and> DiVAE_forward example_DiVAE (Vec [1]) = ([Debug ''forward''], Inl RuntimeError)
   \<and> DiVAE_loss example_DiVAE (Vec [1]) (Vec [1]) [] []
       = ([Debug ''ERROR loss NOT CORRECTLY IMPLEMENTED''], Inl RuntimeError)
   \<and> list_all (\<lambda>r. length r = 784) [replicate 784 (0::real)]
   \<and> flatten (Vec (replicate 784 0)) = concat [replicate 784 0]
   \<and> view_784 (Vec (replicate 784 0)) = Inr (Mat [replicate 784 0])
   \<and> AE_forward example_AE (Vec (replicate 784 0))
       = ([], Inr (Mat [replicate 784 0], Mat [replicate 784 0]))
   \<and> AE_loss example_AE (Vec (replicate 784 0)) (Mat [replicate 784 (1 / 2)])
       = ([], Inr (Num (784 * bce_elem (1 / 2) 0)))
   \<and> VAE_forward (\<lambda>i. 0) example_VAE (Vec (replicate 784 0))
       = py_bind (lift (reparameterize (\<lambda>i. 0) (Mat [replicate 784 0]) (Mat [replicate 784 0])))
           (\<lambda>zeta. return_py (zeta, Mat [replicate 784 0], Mat [replicate 784 0], zeta))
   \<and> VAE_loss example_VAE (Vec (replicate 784 0)) (Mat [replicate 784 (1 / 2)])
         (Vec [0]) (Vec [0])
       = ([Debug ''loss''], Inr (Num (784 * bce_elem (1 / 2) 0)))
   \<and> DiVAE_forward example_DiVAE (Vec (replicate 784 0))
       = ([Debug ''forward'', Print (Mat [replicate 784 0])], Inl SystemExit)
   \<and> snd (ae_loss_term example_DiVAE (Vec (replicate 784 0)) (Mat [replicate 784 1]))
       = Inr (Vec [784 * (1 - softplus 1)])
   \<and> snd (DiVAE_loss example_DiVAE (Vec (replicate 784 0)) (Mat [replicate 784 1]) [] [])
       = Inr (Num (784 * (1 - softplus 1)))"
proof -
  have h1: "length (flatten (Vec [1])) mod 784 \<noteq> 0" by (simp add: flatten_def)
  have h2: "list_all (\<lambda>r. length r = 784) [replicate 784 (0::real)]
      \<and> flatten (Vec (replicate 784 0)) = concat [replicate 784 0]"
    by (simp add: flatten_def)
  note fail = reshape_784 [where x = "Vec [1]" and ae = example_AE and ae_recon = "Vec [1]"
      and draw = "\<lambda>i. 0" and vae = example_VAE and vae_recon = "Vec [1]" and mu = "Vec [0]"
      and logvar = "Vec [0]" and di = example_DiVAE and di_recon = "Vec [1]"
      and posterior = "[]" and samples = "[]", THEN conjunct1, rule_format, OF h1]
  note pass = reshape_784 [where x = "Vec (replicate 784 0)" and r = "replicate 784 0"
      and rs = "[]" and ae = example_AE and ae_recon = "Mat [replicate 784 (1 / 2)]"
      and draw = "\<lambda>i. 0" and vae = example_VAE and vae_recon = "Mat [replicate 784 (1 / 2)]"
      and mu = "Vec [0]" and logvar = "Vec [0]" and di = example_DiVAE
      and di_recon = "Mat [replicate 784 1]" and posterior = "[]" and samples = "[]",
      THEN conjunct2, rule_format, OF h2]
  have sce: "sigmoid_cross_entropy_with_logits example_DiVAE (Vec (replicate 784 0))
        (Mat [replicate 784 1])
      = ([Debug ''WARNING sigmoid_cross_entropy_with_logits preliminary''],
         Inr (Mat [replicate 784 (1 - softplus 1)]))"
    by (subst sce_rows) simp_all
  have ex: "encoder example_AE = example_encoder" "decoder example_AE = example_decoder"
    "encoder example_VAE = example_encoder" "decoder example_VAE = example_decoder"
    "reparamLayers_mu example_VAE = (\<lambda>t. Inr t)" "reparamLayers_var example_VAE = (\<lambda>t. Inr t)"
    "encoder example_DiVAE = example_encoder" "decoder example_DiVAE = example_decoder"
    "training example_DiVAE = True" "attr_model example_DiVAE = None"
    by (simp_all add: example_AE_def example_VAE_def example_DiVAE_def AE_init_def VAE_init_def
        DiVAE_init_def)
  have col: "encode example_encoder = (\<lambda>t. Inr t)" "decode example_decoder = (\<lambda>t. Inr t)"
    "hierarchical_posterior example_encoder = (\<lambda>t. Inr ([\<lparr>entropy = (\<lambda>s. Inr s)\<rparr>], [t]))"
    by (simp_all add: example_encoder_def example_decoder_def)
  have bce: "binary_cross_entropy_sum (Mat [replicate 784 (1 / 2)]) (Mat [replicate 784 0])
      = Inr (Num (784 * bce_elem (1 / 2) 0))"
    by (simp add: binary_cross_entropy_sum_def same_shape_def flatten_def list_all_iff
        sum_list_replicate)
  have c1: "view_784 (Vec (replicate 784 0)) = Inr (Mat [replicate 784 0])"
    using pass by simp
  have c2: "AE_forward example_AE (Vec (replicate 784 0))
       = ([], Inr (Mat [replicate 784 0], Mat [replicate 784 0]))"
    using pass by (simp add: ex col py_simps)
  have c3: "AE_loss example_AE (Vec (replicate 784 0)) (Mat [replicate 784 (1 / 2)])
       = ([], Inr (Num (784 * bce_elem (1 / 2) 0)))"
    using pass by (simp add: bce py_simps)
  have c4: "VAE_forward (\<lambda>i. 0) example_VAE (Vec (replicate 784 0))
       = py_bind (lift (reparameterize (\<lambda>i. 0) (Mat [replicate 784 0]) (Mat [replicate 784 0])))
           (\<lambda>zeta. return_py (zeta, Mat [replicate 784 0], Mat [replicate 784 0], zeta))"
    using pass by (simp add: ex col py_simps)
  have c5: "VAE_loss example_VAE (Vec (replicate 784 0)) (Mat [replicate 784 (1 / 2)])
         (Vec [0]) (Vec [0])
       = ([Debug ''loss''], Inr (Num (784 * bce_elem (1 / 2) 0)))"
    using pass
    by (simp add: bce py_simps tadd_def tsub_def tmul_def pow2_def torch_exp_def tmap_def
        bvec_def torch_sum_def flatten_def)
  have c6: "DiVAE_forward example_DiVAE (Vec (replicate 784 0))
       = ([Debug ''forward'', Print (Mat [replicate 784 0])], Inl SystemExit)"
    using pass by (simp add: ex col py_simps torch_cat1_def)
  have c7: "snd (ae_loss_term example_DiVAE (Vec (replicate 784 0)) (Mat [replicate 784 1]))
       = Inr (Vec [784 * (1 - softplus 1)])"
    using pass by (simp add: sce py_simps py_bind_value torch_sum_dim1_def sum_list_replicate)
  have c8: "snd (DiVAE_loss example_DiVAE (Vec (replicate 784 0)) (Mat [replicate 784 1]) [] [])
       = Inr (Num (784 * (1 - softplus 1)))"
    using pass
    by (simp add: sce ex py_simps py_bind_value torch_sum_dim1_def sum_list_replicate
        kl_divergence_def weight_decay_loss_def err_bind_def tsub_def tadd_def torch_mean_def
        flatten_def)
  from h1 fail h2 c1 c2 c3 c4 c5 c6 c7 c8 show ?thesis by (intro conjI) simp_all
qed

end
